theory Spec2Isabelle
  imports Complex_Main
begin

section \<open>JavaScript values and token tables\<close>

text \<open>
  The token package is a set of TypeScript object literals (\<^verbatim>\<open>as const\<close>) that are
  read with bracket or dot notation. At run time they are plain JavaScript objects, so
  the model has one type of JavaScript values. A number literal is held as the exact
  decimal it is written as; the code never does arithmetic on these values, it only
  stores and looks them up.

  An object is the list of its own properties in insertion order, which is the order
  \<^verbatim>\<open>Object.keys\<close> reports. A property whose value is \<^verbatim>\<open>undefined\<close> is still a
  property: \<^verbatim>\<open>Object.keys({a: undefined})\<close> is \<^verbatim>\<open>['a']\<close>.
\<close>

datatype jsval =
    Undefined
  | Null
  | Bool bool
  | Num rat
  | Str string
  | Arr "jsval list"
  | Obj "(string \<times> jsval) list"

type_synonym obj = "(string \<times> jsval) list"

text \<open>
  \<^verbatim>\<open>o[k]\<close> and \<^verbatim>\<open>o.k\<close> on an object literal: the value of the property, and
  \<^verbatim>\<open>undefined\<close> when the object has no such property. Nothing is thrown.
\<close>

definition get_prop :: "obj \<Rightarrow> string \<Rightarrow> jsval" where
  "get_prop ob k = (case map_of ob k of None \<Rightarrow> Undefined | Some v \<Rightarrow> v)"

text \<open>\<^verbatim>\<open>Object.keys(o)\<close>.\<close>

definition Object_keys :: "obj \<Rightarrow> string list" where
  "Object_keys ob = map fst ob"

text \<open>\<^verbatim>\<open>k in o\<close> for an own property.\<close>

definition has_key :: "obj \<Rightarrow> string \<Rightarrow> bool" where
  "has_key ob k = (k \<in> set (Object_keys ob))"

section \<open>Tier 1: primitives\<close>

subsection \<open>Colours (primitives/colors.ts)\<close>

definition gold :: obj where
  "gold =
    [(''gold-10'', Str ''#fffdf5''),
     (''gold-20'', Str ''#fff8e1''),
     (''gold-30'', Str ''#ffecb3''),
     (''gold-40'', Str ''#ffe082''),
     (''gold-50'', Str ''#ffd54f''),
     (''gold-60'', Str ''#d4af37''),
     (''gold-70'', Str ''#c9a868''),
     (''gold-80'', Str ''#b8972f''),
     (''gold-90'', Str ''#8a7424''),
     (''gold-100'', Str ''#6b4f00''),
     (''gold-glow'', Str ''#ffe8a3''),
     (''gold-light-accent'', Str ''#f4cf67''),
     (''gold-accessible'', Str ''#886a00''),
     (''gold-accessible-dark'', Str ''#6b4f00'')]"

definition gray :: obj where
  "gray =
    [(''gray-warm-10'', Str ''#f5f2ea''),
     (''gray-warm-20'', Str ''#eae5db''),
     (''gray-warm-30'', Str ''#dacfc5''),
     (''gray-warm-40'', Str ''#8a7f75''),
     (''gray-warm-50'', Str ''#6b5f55''),
     (''gray-warm-60'', Str ''#5a4f45''),
     (''gray-warm-70'', Str ''#3a3530''),
     (''gray-warm-80'', Str ''#2a2520''),
     (''gray-cool-10'', Str ''#e8e6e3''),
     (''gray-cool-20'', Str ''#b8b6b3''),
     (''gray-cool-30'', Str ''#a8a6a3''),
     (''gray-cool-40'', Str ''#8a8a9a''),
     (''gray-cool-50'', Str ''#7585a0''),
     (''gray-cool-60'', Str ''#5a6578''),
     (''gray-cool-70'', Str ''#4a5568''),
     (''gray-cool-80'', Str ''#2a2a38''),
     (''gray-cool-90'', Str ''#1e1e2e''),
     (''gray-cool-100'', Str ''#12121a'')]"

definition neutral :: obj where
  "neutral =
    [(''black'', Str ''#000000''),
     (''white'', Str ''#ffffff''),
     (''void'', Str ''#0a0a0f''),
     (''void-pure'', Str ''#000000''),
     (''void-surface'', Str ''#0a0a0a''),
     (''cream'', Str ''#faf8f3''),
     (''cream-warm'', Str ''#f5f2ea''),
     (''cream-deep'', Str ''#eeebe2'')]"

definition ethereal :: obj where
  "ethereal =
    [(''ethereal-blue-10'', Str ''#e0f2fe''),
     (''ethereal-blue-20'', Str ''#bae6fd''),
     (''ethereal-blue-30'', Str ''#7dd3fc''),
     (''ethereal-blue-40'', Str ''#38bdf8''),
     (''ethereal-blue-50'', Str ''#0ea5e9''),
     (''ethereal-blue-60'', Str ''#6b9ac4''),
     (''ethereal-indigo-10'', Str ''#e0e7ff''),
     (''ethereal-indigo-20'', Str ''#c7d2fe''),
     (''ethereal-indigo-30'', Str ''#a5b4fc''),
     (''ethereal-indigo-40'', Str ''#818cf8''),
     (''ethereal-indigo-50'', Str ''#6366f1''),
     (''ethereal-indigo-60'', Str ''#9b8aa8''),
     (''ethereal-violet-10'', Str ''#ede9fe''),
     (''ethereal-violet-20'', Str ''#ddd6fe''),
     (''ethereal-violet-30'', Str ''#c4b5fd''),
     (''ethereal-violet-40'', Str ''#a78bfa''),
     (''ethereal-violet-50'', Str ''#8b5cf6''),
     (''ethereal-violet-60'', Str ''#b19cd9'')]"

definition support :: obj where
  "support =
    [(''support-green-10'', Str ''#d1fae5''),
     (''support-green-20'', Str ''#a7f3d0''),
     (''support-green-30'', Str ''#6ee7b7''),
     (''support-green-40'', Str ''#34d399''),
     (''support-green-50'', Str ''#10b981''),
     (''support-green-60'', Str ''#059669''),
     (''support-red-10'', Str ''#fee2e2''),
     (''support-red-20'', Str ''#fecaca''),
     (''support-red-30'', Str ''#fca5a5''),
     (''support-red-40'', Str ''#f87171''),
     (''support-red-50'', Str ''#ef4444''),
     (''support-red-60'', Str ''#dc2626''),
     (''support-amber-10'', Str ''#fef3c7''),
     (''support-amber-20'', Str ''#fde68a''),
     (''support-amber-30'', Str ''#fcd34d''),
     (''support-amber-40'', Str ''#fbbf24''),
     (''support-amber-50'', Str ''#f59e0b''),
     (''support-amber-60'', Str ''#d97706'')]"

subsection \<open>Spacing, radius, duration, easing, z-index\<close>

text \<open>
  \<open>spacing\<close>, \<open>radius\<close>, \<open>easing\<close> and \<open>spring\<close> are in
  \<^verbatim>\<open>primitives/easing.ts\<close>, \<open>duration\<close> in \<^verbatim>\<open>primitives/border.ts\<close> and \<open>zIndex\<close> in
  \<^verbatim>\<open>primitives/z-index.ts\<close>.
\<close>

definition spacing :: obj where
  "spacing =
    [(''space-0'', Num 0),
     (''space-1'', Num 4),
     (''space-2'', Num 8),
     (''space-3'', Num 12),
     (''space-4'', Num 16),
     (''space-5'', Num 20),
     (''space-6'', Num 24),
     (''space-7'', Num 28),
     (''space-8'', Num 32),
     (''space-9'', Num 36),
     (''space-10'', Num 40),
     (''space-11'', Num 44),
     (''space-12'', Num 48),
     (''space-13'', Num 52),
     (''space-14'', Num 56),
     (''space-15'', Num 60),
     (''space-16'', Num 64),
     (''space-20'', Num 80),
     (''space-24'', Num 96),
     (''space-32'', Num 128)]"

definition radius :: obj where
  "radius =
    [(''radius-0'', Num 0),
     (''radius-2'', Num 2),
     (''radius-4'', Num 4),
     (''radius-6'', Num 6),
     (''radius-8'', Num 8),
     (''radius-12'', Num 12),
     (''radius-16'', Num 16),
     (''radius-20'', Num 20),
     (''radius-24'', Num 24),
     (''radius-full'', Num 9999)]"

definition duration :: obj where
  "duration =
    [(''duration-0'', Num 0),
     (''duration-100'', Num 100),
     (''duration-150'', Num 150),
     (''duration-200'', Num 200),
     (''duration-300'', Num 300),
     (''duration-400'', Num 400),
     (''duration-500'', Num 500),
     (''duration-600'', Num 600),
     (''duration-800'', Num 800),
     (''duration-1000'', Num 1000),
     (''duration-1200'', Num 1200),
     (''duration-1500'', Num 1500),
     (''duration-2000'', Num 2000),
     (''duration-3000'', Num 3000),
     (''duration-3600'', Num 3600),
     (''duration-4800'', Num 4800)]"

definition easing :: obj where
  "easing =
    [(''ease-linear'', Arr [Num 0, Num 0, Num 1, Num 1]),
     (''ease-in'', Arr [Num 0.4, Num 0, Num 1, Num 1]),
     (''ease-out'', Arr [Num 0, Num 0, Num 0.2, Num 1]),
     (''ease-in-out'', Arr [Num 0.4, Num 0, Num 0.2, Num 1]),
     (''ease-mystical'', Arr [Num 0.16, Num 1, Num 0.3, Num 1]),
     (''ease-bounce'', Arr [Num 0.34, Num 1.56, Num 0.64, Num 1])]"

definition spring :: obj where
  "spring =
    [(''spring-gentle'', Obj [(''damping'', Num 20), (''stiffness'', Num 100)]),
     (''spring-default'', Obj [(''damping'', Num 15), (''stiffness'', Num 150)]),
     (''spring-bouncy'', Obj [(''damping'', Num 10), (''stiffness'', Num 200)]),
     (''spring-stiff'', Obj [(''damping'', Num 25), (''stiffness'', Num 300)])]"

definition zIndex :: obj where
  "zIndex =
    [(''z-0'', Num 0),
     (''z-10'', Num 10),
     (''z-20'', Num 20),
     (''z-30'', Num 30),
     (''z-40'', Num 40),
     (''z-50'', Num 50),
     (''z-auto'', Str ''auto'')]"

subsection \<open>Typography (primitives/typography.ts)\<close>

definition fontSize :: obj where
  "fontSize =
    [(''font-size-10'', Num 10),
     (''font-size-12'', Num 12),
     (''font-size-14'', Num 14),
     (''font-size-16'', Num 16),
     (''font-size-18'', Num 18),
     (''font-size-20'', Num 20),
     (''font-size-24'', Num 24),
     (''font-size-28'', Num 28),
     (''font-size-32'', Num 32),
     (''font-size-36'', Num 36),
     (''font-size-40'', Num 40),
     (''font-size-48'', Num 48),
     (''font-size-56'', Num 56),
     (''font-size-64'', Num 64),
     (''font-size-72'', Num 72),
     (''font-size-96'', Num 96)]"

definition fontWeight :: obj where
  "fontWeight =
    [(''font-weight-300'', Str ''300''),
     (''font-weight-400'', Str ''400''),
     (''font-weight-500'', Str ''500''),
     (''font-weight-600'', Str ''600''),
     (''font-weight-700'', Str ''700''),
     (''font-weight-900'', Str ''900'')]"

definition lineHeight :: obj where
  "lineHeight =
    [(''line-height-100'', Num 1.0),
     (''line-height-120'', Num 1.2),
     (''line-height-140'', Num 1.4),
     (''line-height-150'', Num 1.5),
     (''line-height-160'', Num 1.6),
     (''line-height-180'', Num 1.8),
     (''line-height-200'', Num 2.0)]"

definition letterSpacing :: obj where
  "letterSpacing =
    [(''letter-spacing-tight'', Num (- 0.5)),
     (''letter-spacing-normal'', Num 0),
     (''letter-spacing-wide'', Num 0.5),
     (''letter-spacing-wider'', Num 1),
     (''letter-spacing-widest'', Num 2),
     (''letter-spacing-ultra'', Num 4),
     (''letter-spacing-extreme'', Num 6),
     (''letter-spacing-ritual'', Num 8)]"

section \<open>Tier 2: semantic colours (semantic/colors.ts)\<close>

text \<open>
  Each entry is the bracket read the source writes, or its literal. A read of a key
  the primitive table does not have is \<^verbatim>\<open>undefined\<close> and the entry is still created.
\<close>

definition lightColors :: obj where
  "lightColors =
    [(''background'', get_prop neutral ''cream''),
     (''surface'', get_prop neutral ''cream-warm''),
     (''surface-elevated'', get_prop neutral ''cream-deep''),
     (''border'', get_prop gray ''gray-warm-30''),
     (''text-primary'', get_prop gray ''gray-warm-80''),
     (''text-secondary'', get_prop gray ''gray-warm-60''),
     (''text-tertiary'', get_prop gray ''gray-warm-50''),
     (''text-disabled'', get_prop gray ''gray-warm-40''),
     (''text-inverse'', get_prop neutral ''white''),
     (''text-on-color'', get_prop neutral ''white''),
     (''gold-primary'', get_prop gold ''gold-accessible''),
     (''gold-light'', get_prop gold ''gold-60''),
     (''gold-muted'', get_prop gold ''gold-accessible''),
     (''gold-dark'', get_prop gold ''gold-accessible-dark''),
     (''gold-glow'', get_prop gold ''gold-light-accent''),
     (''text-accent'', get_prop gold ''gold-accessible''),
     (''interactive-primary'', get_prop gold ''gold-accessible''),
     (''interactive-primary-hover'', get_prop gold ''gold-100''),
     (''interactive-primary-active'', get_prop gold ''gold-accessible-dark''),
     (''interactive-secondary'', get_prop gray ''gray-warm-20''),
     (''interactive-secondary-hover'', get_prop gray ''gray-warm-30''),
     (''interactive-disabled'', get_prop gray ''gray-warm-30''),
     (''border-subtle'', get_prop gray ''gray-warm-20''),
     (''border-default'', get_prop gray ''gray-warm-30''),
     (''border-strong'', get_prop gray ''gray-warm-50''),
     (''border-inverse'', get_prop gray ''gray-warm-80''),
     (''border-accent'', get_prop gold ''gold-accessible''),
     (''border-focus'', get_prop gold ''gold-accessible''),
     (''ethereal-blue'', Str ''#6b7c9a''),
     (''ethereal-indigo'', Str ''#7b7fc9''),
     (''ethereal-violet'', Str ''#9b8cd6''),
     (''support-success'', Str ''#0d8f68''),
     (''support-success-subtle'', get_prop support ''support-green-10''),
     (''support-warning'', Str ''#d87600''),
     (''support-warning-subtle'', get_prop support ''support-amber-10''),
     (''support-error'', Str ''#c93a3a''),
     (''support-error-subtle'', get_prop support ''support-red-10''),
     (''support-info'', get_prop ethereal ''ethereal-blue-50''),
     (''support-info-subtle'', get_prop ethereal ''ethereal-blue-10''),
     (''alert-info-bg'', Str ''rgba(107, 124, 154, 0.1)''),
     (''alert-info-border'', get_prop ethereal ''ethereal-blue-30''),
     (''alert-info-text'', get_prop ethereal ''ethereal-blue-60''),
     (''alert-info-title'', get_prop ethereal ''ethereal-blue-70''),
     (''alert-success-bg'', Str ''rgba(13, 143, 104, 0.1)''),
     (''alert-success-border'', get_prop support ''support-green-30''),
     (''alert-success-text'', get_prop support ''support-green-60''),
     (''alert-success-title'', get_prop support ''support-green-70''),
     (''alert-warning-bg'', Str ''rgba(216, 118, 0, 0.1)''),
     (''alert-warning-border'', get_prop support ''support-amber-30''),
     (''alert-warning-text'', get_prop support ''support-amber-60''),
     (''alert-warning-title'', get_prop support ''support-amber-70''),
     (''alert-error-bg'', Str ''rgba(201, 58, 58, 0.1)''),
     (''alert-error-border'', get_prop support ''support-red-30''),
     (''alert-error-text'', get_prop support ''support-red-60''),
     (''alert-error-title'', get_prop support ''support-red-70''),
     (''gray-900'', get_prop gray ''gray-warm-70''),
     (''gray-700'', get_prop gray ''gray-warm-60''),
     (''gray-600'', Str ''#7a6f65''),
     (''gray-500'', get_prop gray ''gray-warm-50''),
     (''gray-400'', get_prop gray ''gray-warm-40''),
     (''gray-300'', get_prop gray ''gray-warm-30''),
     (''gray-200'', get_prop gray ''gray-warm-20''),
     (''gray-100'', get_prop gray ''gray-warm-10''),
     (''overlay-light'', Str ''rgba(255, 255, 255, 0.7)''),
     (''overlay-dark'', Str ''rgba(0, 0, 0, 0.5)''),
     (''hexagram-line'', get_prop gray ''gray-warm-70''),
     (''hexagram-line-changing'', get_prop gold ''gold-60'')]"

definition darkColors :: obj where
  "darkColors =
    [(''background'', get_prop neutral ''void''),
     (''surface'', get_prop gray ''gray-cool-100''),
     (''surface-elevated'', get_prop gray ''gray-cool-90''),
     (''border'', Str ''#1a1a24''),
     (''text-primary'', get_prop gray ''gray-cool-10''),
     (''text-secondary'', get_prop gray ''gray-cool-20''),
     (''text-tertiary'', get_prop gray ''gray-cool-40''),
     (''text-disabled'', get_prop gray ''gray-cool-60''),
     (''text-inverse'', get_prop gray ''gray-cool-100''),
     (''text-on-color'', get_prop gray ''gray-cool-100''),
     (''gold-primary'', get_prop gold ''gold-60''),
     (''gold-light'', get_prop gold ''gold-light-accent''),
     (''gold-muted'', get_prop gold ''gold-70''),
     (''gold-dark'', get_prop gold ''gold-90''),
     (''gold-glow'', get_prop gold ''gold-glow''),
     (''text-accent'', get_prop gold ''gold-50''),
     (''interactive-primary'', get_prop gold ''gold-60''),
     (''interactive-primary-hover'', get_prop gold ''gold-50''),
     (''interactive-primary-active'', get_prop gold ''gold-40''),
     (''interactive-secondary'', get_prop gray ''gray-cool-80''),
     (''interactive-secondary-hover'', get_prop gray ''gray-cool-70''),
     (''interactive-disabled'', get_prop gray ''gray-cool-70''),
     (''border-subtle'', get_prop gray ''gray-cool-80''),
     (''border-default'', get_prop gray ''gray-cool-70''),
     (''border-strong'', get_prop gray ''gray-cool-50''),
     (''border-inverse'', get_prop gray ''gray-cool-20''),
     (''border-accent'', get_prop gold ''gold-50''),
     (''border-focus'', get_prop gold ''gold-50''),
     (''ethereal-blue'', get_prop gray ''gray-cool-70''),
     (''ethereal-indigo'', get_prop ethereal ''ethereal-indigo-50''),
     (''ethereal-violet'', get_prop ethereal ''ethereal-violet-50''),
     (''support-success'', get_prop support ''support-green-50''),
     (''support-success-subtle'', get_prop support ''support-green-60''),
     (''support-warning'', get_prop support ''support-amber-50''),
     (''support-warning-subtle'', get_prop support ''support-amber-60''),
     (''support-error'', get_prop support ''support-red-50''),
     (''support-error-subtle'', get_prop support ''support-red-60''),
     (''support-info'', get_prop ethereal ''ethereal-blue-40''),
     (''support-info-subtle'', get_prop ethereal ''ethereal-blue-60''),
     (''alert-info-bg'', Str ''rgba(99, 102, 241, 0.1)''),
     (''alert-info-border'', Str ''rgba(99, 102, 241, 0.3)''),
     (''alert-info-text'', Str ''#a5b4fc''),
     (''alert-info-title'', Str ''#c7d2fe''),
     (''alert-success-bg'', Str ''rgba(16, 185, 129, 0.1)''),
     (''alert-success-border'', Str ''rgba(16, 185, 129, 0.3)''),
     (''alert-success-text'', Str ''#6ee7b7''),
     (''alert-success-title'', Str ''#a7f3d0''),
     (''alert-warning-bg'', Str ''rgba(245, 158, 11, 0.1)''),
     (''alert-warning-border'', Str ''rgba(245, 158, 11, 0.3)''),
     (''alert-warning-text'', Str ''#fcd34d''),
     (''alert-warning-title'', Str ''#fde68a''),
     (''alert-error-bg'', Str ''rgba(239, 68, 68, 0.1)''),
     (''alert-error-border'', Str ''rgba(239, 68, 68, 0.3)''),
     (''alert-error-text'', Str ''#fca5a5''),
     (''alert-error-title'', Str ''#fecaca''),
     (''gray-900'', get_prop gray ''gray-cool-80''),
     (''gray-700'', get_prop gray ''gray-cool-70''),
     (''gray-600'', get_prop gray ''gray-cool-60''),
     (''gray-500'', get_prop gray ''gray-cool-50''),
     (''gray-400'', get_prop gray ''gray-cool-40''),
     (''gray-300'', get_prop gray ''gray-cool-30''),
     (''gray-200'', get_prop gray ''gray-cool-20''),
     (''gray-100'', get_prop gray ''gray-cool-10''),
     (''overlay-light'', Str ''rgba(255, 255, 255, 0.1)''),
     (''overlay-dark'', Str ''rgba(0, 0, 0, 0.7)''),
     (''hexagram-line'', get_prop gray ''gray-cool-20''),
     (''hexagram-line-changing'', get_prop gold ''gold-50'')]"

definition trueBlackColors :: obj where
  "trueBlackColors =
    [(''background'', get_prop neutral ''void-pure''),
     (''surface'', get_prop neutral ''void-surface''),
     (''surface-elevated'', Str ''#141414''),
     (''border'', Str ''#1a1a1a''),
     (''text-primary'', get_prop gray ''gray-cool-10''),
     (''text-secondary'', get_prop gray ''gray-cool-20''),
     (''text-tertiary'', get_prop gray ''gray-cool-40''),
     (''text-disabled'', get_prop gray ''gray-cool-60''),
     (''text-inverse'', get_prop gray ''gray-cool-100''),
     (''text-on-color'', get_prop gray ''gray-cool-100''),
     (''gold-primary'', get_prop gold ''gold-60''),
     (''gold-light'', get_prop gold ''gold-light-accent''),
     (''gold-muted'', get_prop gold ''gold-70''),
     (''gold-dark'', get_prop gold ''gold-90''),
     (''gold-glow'', get_prop gold ''gold-glow''),
     (''text-accent'', get_prop gold ''gold-50''),
     (''interactive-primary'', get_prop gold ''gold-60''),
     (''interactive-primary-hover'', get_prop gold ''gold-50''),
     (''interactive-primary-active'', get_prop gold ''gold-40''),
     (''interactive-secondary'', get_prop gray ''gray-cool-80''),
     (''interactive-secondary-hover'', get_prop gray ''gray-cool-70''),
     (''interactive-disabled'', get_prop gray ''gray-cool-70''),
     (''border-subtle'', get_prop gray ''gray-cool-80''),
     (''border-default'', get_prop gray ''gray-cool-70''),
     (''border-strong'', get_prop gray ''gray-cool-50''),
     (''border-inverse'', get_prop gray ''gray-cool-20''),
     (''border-accent'', get_prop gold ''gold-50''),
     (''border-focus'', get_prop gold ''gold-50''),
     (''ethereal-blue'', get_prop gray ''gray-cool-70''),
     (''ethereal-indigo'', get_prop ethereal ''ethereal-indigo-50''),
     (''ethereal-violet'', get_prop ethereal ''ethereal-violet-50''),
     (''support-success'', get_prop support ''support-green-50''),
     (''support-success-subtle'', get_prop support ''support-green-60''),
     (''support-warning'', get_prop support ''support-amber-50''),
     (''support-warning-subtle'', get_prop support ''support-amber-60''),
     (''support-error'', get_prop support ''support-red-50''),
     (''support-error-subtle'', get_prop support ''support-red-60''),
     (''support-info'', get_prop ethereal ''ethereal-blue-40''),
     (''support-info-subtle'', get_prop ethereal ''ethereal-blue-60''),
     (''alert-info-bg'', Str ''rgba(99, 102, 241, 0.1)''),
     (''alert-info-border'', Str ''rgba(99, 102, 241, 0.3)''),
     (''alert-info-text'', Str ''#a5b4fc''),
     (''alert-info-title'', Str ''#c7d2fe''),
     (''alert-success-bg'', Str ''rgba(16, 185, 129, 0.1)''),
     (''alert-success-border'', Str ''rgba(16, 185, 129, 0.3)''),
     (''alert-success-text'', Str ''#6ee7b7''),
     (''alert-success-title'', Str ''#a7f3d0''),
     (''alert-warning-bg'', Str ''rgba(245, 158, 11, 0.1)''),
     (''alert-warning-border'', Str ''rgba(245, 158, 11, 0.3)''),
     (''alert-warning-text'', Str ''#fcd34d''),
     (''alert-warning-title'', Str ''#fde68a''),
     (''alert-error-bg'', Str ''rgba(239, 68, 68, 0.1)''),
     (''alert-error-border'', Str ''rgba(239, 68, 68, 0.3)''),
     (''alert-error-text'', Str ''#fca5a5''),
     (''alert-error-title'', Str ''#fecaca''),
     (''gray-900'', get_prop gray ''gray-cool-80''),
     (''gray-700'', get_prop gray ''gray-cool-70''),
     (''gray-600'', get_prop gray ''gray-cool-60''),
     (''gray-500'', get_prop gray ''gray-cool-50''),
     (''gray-400'', get_prop gray ''gray-cool-40''),
     (''gray-300'', get_prop gray ''gray-cool-30''),
     (''gray-200'', get_prop gray ''gray-cool-20''),
     (''gray-100'', get_prop gray ''gray-cool-10''),
     (''overlay-light'', Str ''rgba(255, 255, 255, 0.1)''),
     (''overlay-dark'', Str ''rgba(0, 0, 0, 0.7)''),
     (''hexagram-line'', get_prop gray ''gray-cool-20''),
     (''hexagram-line-changing'', get_prop gold ''gold-50'')]"

section \<open>Tier 2: theme-independent semantic tables\<close>

text \<open>
  \<open>semanticSpacing\<close> follows the colour tables in \<^verbatim>\<open>semantic/colors.ts\<close>; \<open>typeStyles\<close>
  is \<^verbatim>\<open>semantic/typography.ts\<close>, \<open>motion\<close> and \<open>springMotion\<close> are
  \<^verbatim>\<open>unnamed/part_025\<close>, \<open>semanticRadius\<close> is \<^verbatim>\<open>unnamed/part_023\<close> and
  \<open>semanticZIndex\<close> is \<^verbatim>\<open>semantic/z-index.ts\<close>.
\<close>

definition semanticSpacing :: obj where
  "semanticSpacing =
    [(''inset-xs'', get_prop spacing ''space-1''),
     (''inset-sm'', get_prop spacing ''space-2''),
     (''inset-md'', get_prop spacing ''space-4''),
     (''inset-lg'', get_prop spacing ''space-6''),
     (''inset-xl'', get_prop spacing ''space-8''),
     (''inset-2xl'', get_prop spacing ''space-12''),
     (''stack-xs'', get_prop spacing ''space-1''),
     (''stack-sm'', get_prop spacing ''space-2''),
     (''stack-md'', get_prop spacing ''space-4''),
     (''stack-lg'', get_prop spacing ''space-6''),
     (''stack-xl'', get_prop spacing ''space-8''),
     (''stack-2xl'', get_prop spacing ''space-12''),
     (''stack-3xl'', get_prop spacing ''space-16''),
     (''inline-xs'', get_prop spacing ''space-1''),
     (''inline-sm'', get_prop spacing ''space-2''),
     (''inline-md'', get_prop spacing ''space-4''),
     (''inline-lg'', get_prop spacing ''space-6''),
     (''inline-xl'', get_prop spacing ''space-8''),
     (''layout-gutter'', get_prop spacing ''space-4''),
     (''layout-margin'', get_prop spacing ''space-5''),
     (''layout-section'', get_prop spacing ''space-12''),
     (''layout-page'', get_prop spacing ''space-16'')]"

definition typeStyles :: obj where
  "typeStyles =
    [(''type-display-large'', Obj
        [(''fontSize'', get_prop fontSize ''font-size-48''),
         (''fontWeight'', get_prop fontWeight ''font-weight-300''),
         (''lineHeight'', get_prop lineHeight ''line-height-120''),
         (''letterSpacing'', get_prop letterSpacing ''letter-spacing-tight'')]),
     (''type-display-medium'', Obj
        [(''fontSize'', get_prop fontSize ''font-size-40''),
         (''fontWeight'', get_prop fontWeight ''font-weight-300''),
         (''lineHeight'', get_prop lineHeight ''line-height-120''),
         (''letterSpacing'', get_prop letterSpacing ''letter-spacing-tight'')]),
     (''type-display-small'', Obj
        [(''fontSize'', get_prop fontSize ''font-size-32''),
         (''fontWeight'', get_prop fontWeight ''font-weight-300''),
         (''lineHeight'', get_prop lineHeight ''line-height-120''),
         (''letterSpacing'', get_prop letterSpacing ''letter-spacing-normal'')]),
     (''type-heading-xl'', Obj
        [(''fontSize'', get_prop fontSize ''font-size-28''),
         (''fontWeight'', get_prop fontWeight ''font-weight-600''),
         (''lineHeight'', get_prop lineHeight ''line-height-140''),
         (''letterSpacing'', get_prop letterSpacing ''letter-spacing-normal'')]),
     (''type-heading-lg'', Obj
        [(''fontSize'', get_prop fontSize ''font-size-24''),
         (''fontWeight'', get_prop fontWeight ''font-weight-600''),
         (''lineHeight'', get_prop lineHeight ''line-height-140''),
         (''letterSpacing'', get_prop letterSpacing ''letter-spacing-normal'')]),
     (''type-heading-md'', Obj
        [(''fontSize'', get_prop fontSize ''font-size-20''),
         (''fontWeight'', get_prop fontWeight ''font-weight-600''),
         (''lineHeight'', get_prop lineHeight ''line-height-140''),
         (''letterSpacing'', get_prop letterSpacing ''letter-spacing-normal'')]),
     (''type-heading-sm'', Obj
        [(''fontSize'', get_prop fontSize ''font-size-18''),
         (''fontWeight'', get_prop fontWeight ''font-weight-600''),
         (''lineHeight'', get_prop lineHeight ''line-height-140''),
         (''letterSpacing'', get_prop letterSpacing ''letter-spacing-normal'')]),
     (''type-body-lg'', Obj
        [(''fontSize'', get_prop fontSize ''font-size-18''),
         (''fontWeight'', get_prop fontWeight ''font-weight-400''),
         (''lineHeight'', get_prop lineHeight ''line-height-160''),
         (''letterSpacing'', get_prop letterSpacing ''letter-spacing-normal'')]),
     (''type-body-md'', Obj
        [(''fontSize'', get_prop fontSize ''font-size-16''),
         (''fontWeight'', get_prop fontWeight ''font-weight-400''),
         (''lineHeight'', get_prop lineHeight ''line-height-150''),
         (''letterSpacing'', get_prop letterSpacing ''letter-spacing-normal'')]),
     (''type-body-sm'', Obj
        [(''fontSize'', get_prop fontSize ''font-size-14''),
         (''fontWeight'', get_prop fontWeight ''font-weight-400''),
         (''lineHeight'', get_prop lineHeight ''line-height-150''),
         (''letterSpacing'', get_prop letterSpacing ''letter-spacing-normal'')]),
     (''type-label-lg'', Obj
        [(''fontSize'', get_prop fontSize ''font-size-16''),
         (''fontWeight'', get_prop fontWeight ''font-weight-500''),
         (''lineHeight'', get_prop lineHeight ''line-height-140''),
         (''letterSpacing'', get_prop letterSpacing ''letter-spacing-wide'')]),
     (''type-label-md'', Obj
        [(''fontSize'', get_prop fontSize ''font-size-14''),
         (''fontWeight'', get_prop fontWeight ''font-weight-500''),
         (''lineHeight'', get_prop lineHeight ''line-height-140''),
         (''letterSpacing'', get_prop letterSpacing ''letter-spacing-wide'')]),
     (''type-label-sm'', Obj
        [(''fontSize'', get_prop fontSize ''font-size-12''),
         (''fontWeight'', get_prop fontWeight ''font-weight-500''),
         (''lineHeight'', get_prop lineHeight ''line-height-140''),
         (''letterSpacing'', get_prop letterSpacing ''letter-spacing-wide'')]),
     (''type-caption'', Obj
        [(''fontSize'', get_prop fontSize ''font-size-12''),
         (''fontWeight'', get_prop fontWeight ''font-weight-400''),
         (''lineHeight'', get_prop lineHeight ''line-height-140''),
         (''letterSpacing'', get_prop letterSpacing ''letter-spacing-normal'')]),
     (''type-ritual-symbol'', Obj
        [(''fontSize'', get_prop fontSize ''font-size-72''),
         (''fontWeight'', get_prop fontWeight ''font-weight-400''),
         (''lineHeight'', get_prop lineHeight ''line-height-100''),
         (''letterSpacing'', get_prop letterSpacing ''letter-spacing-normal'')]),
     (''type-ritual-title'', Obj
        [(''fontSize'', get_prop fontSize ''font-size-24''),
         (''fontWeight'', get_prop fontWeight ''font-weight-300''),
         (''lineHeight'', get_prop lineHeight ''line-height-160''),
         (''letterSpacing'', get_prop letterSpacing ''letter-spacing-wider'')])]"

definition motion :: obj where
  "motion =
    [(''motion-instant'', Obj
        [(''duration'', get_prop duration ''duration-100''),
         (''easing'', get_prop easing ''ease-out'')]),
     (''motion-fast'', Obj
        [(''duration'', get_prop duration ''duration-200''),
         (''easing'', get_prop easing ''ease-out'')]),
     (''motion-default'', Obj
        [(''duration'', get_prop duration ''duration-300''),
         (''easing'', get_prop easing ''ease-in-out'')]),
     (''motion-slow'', Obj
        [(''duration'', get_prop duration ''duration-500''),
         (''easing'', get_prop easing ''ease-in-out'')]),
     (''motion-contemplative'', Obj
        [(''duration'', get_prop duration ''duration-800''),
         (''easing'', get_prop easing ''ease-mystical'')]),
     (''motion-mystical'', Obj
        [(''duration'', get_prop duration ''duration-1200''),
         (''easing'', get_prop easing ''ease-mystical'')]),
     (''motion-breath-in'', Obj
        [(''duration'', get_prop duration ''duration-3600''),
         (''easing'', get_prop easing ''ease-in-out'')]),
     (''motion-breath-out'', Obj
        [(''duration'', get_prop duration ''duration-4800''),
         (''easing'', get_prop easing ''ease-in-out'')])]"

definition springMotion :: obj where
  "springMotion =
    [(''spring-button'', get_prop spring ''spring-default''),
     (''spring-modal'', get_prop spring ''spring-gentle''),
     (''spring-card'', get_prop spring ''spring-gentle''),
     (''spring-bounce'', get_prop spring ''spring-bouncy'')]"

definition semanticRadius :: obj where
  "semanticRadius =
    [(''radius-none'', get_prop radius ''radius-0''),
     (''radius-interactive'', get_prop radius ''radius-8''),
     (''radius-container'', get_prop radius ''radius-12''),
     (''radius-card'', get_prop radius ''radius-16''),
     (''radius-modal'', get_prop radius ''radius-20''),
     (''radius-pill'', get_prop radius ''radius-full'')]"

definition semanticZIndex :: obj where
  "semanticZIndex =
    [(''z-base'', get_prop zIndex ''z-0''),
     (''z-dropdown'', get_prop zIndex ''z-10''),
     (''z-sticky'', get_prop zIndex ''z-20''),
     (''z-overlay'', get_prop zIndex ''z-30''),
     (''z-modal'', get_prop zIndex ''z-40''),
     (''z-toast'', get_prop zIndex ''z-50'')]"

section \<open>Tier 3: component tokens (components/button.ts, unnamed/part_026, unnamed/part_027)\<close>

text \<open>
  The colour tables hold names of semantic colours, to be looked up by the consumer in
  the colour table of the active theme.
\<close>

definition buttonTokens :: obj where
  "buttonTokens =
    [(''button-padding-x-sm'', get_prop semanticSpacing ''inset-sm''),
     (''button-padding-y-sm'', get_prop semanticSpacing ''inset-xs''),
     (''button-padding-x-md'', get_prop semanticSpacing ''inset-md''),
     (''button-padding-y-md'', get_prop semanticSpacing ''inset-sm''),
     (''button-padding-x-lg'', get_prop semanticSpacing ''inset-lg''),
     (''button-padding-y-lg'', get_prop semanticSpacing ''inset-md''),
     (''button-min-width-sm'', Num 64),
     (''button-min-width-md'', Num 80),
     (''button-min-width-lg'', Num 96),
     (''button-height-sm'', Num 32),
     (''button-height-md'', Num 40),
     (''button-height-lg'', Num 48),
     (''button-radius'', get_prop semanticRadius ''radius-interactive''),
     (''button-radius-pill'', get_prop semanticRadius ''radius-pill''),
     (''button-font-sm'', get_prop typeStyles ''type-label-sm''),
     (''button-font-md'', get_prop typeStyles ''type-label-md''),
     (''button-font-lg'', get_prop typeStyles ''type-label-lg''),
     (''button-icon-gap-sm'', get_prop semanticSpacing ''inline-xs''),
     (''button-icon-gap-md'', get_prop semanticSpacing ''inline-sm''),
     (''button-icon-gap-lg'', get_prop semanticSpacing ''inline-sm'')]"

definition buttonColorTokens :: obj where
  "buttonColorTokens =
    [(''button-primary-background'', Str ''interactive-primary''),
     (''button-primary-background-hover'', Str ''interactive-primary-hover''),
     (''button-primary-background-active'', Str ''interactive-primary-active''),
     (''button-primary-text'', Str ''text-on-color''),
     (''button-primary-border'', Str ''transparent''),
     (''button-secondary-background'', Str ''transparent''),
     (''button-secondary-background-hover'', Str ''interactive-secondary''),
     (''button-secondary-background-active'', Str ''interactive-secondary-hover''),
     (''button-secondary-text'', Str ''text-primary''),
     (''button-secondary-border'', Str ''border-default''),
     (''button-ghost-background'', Str ''transparent''),
     (''button-ghost-background-hover'', Str ''interactive-secondary''),
     (''button-ghost-background-active'', Str ''interactive-secondary-hover''),
     (''button-ghost-text'', Str ''text-primary''),
     (''button-ghost-border'', Str ''transparent''),
     (''button-danger-background'', Str ''support-error''),
     (''button-danger-background-hover'', Str ''support-error''),
     (''button-danger-background-active'', Str ''support-error''),
     (''button-danger-text'', Str ''text-on-color''),
     (''button-danger-border'', Str ''transparent''),
     (''button-disabled-background'', Str ''interactive-disabled''),
     (''button-disabled-text'', Str ''text-disabled''),
     (''button-disabled-border'', Str ''transparent'')]"

definition cardTokens :: obj where
  "cardTokens =
    [(''card-padding-sm'', get_prop semanticSpacing ''inset-sm''),
     (''card-padding-md'', get_prop semanticSpacing ''inset-md''),
     (''card-padding-lg'', get_prop semanticSpacing ''inset-lg''),
     (''card-radius'', get_prop semanticRadius ''radius-card''),
     (''card-gap'', get_prop semanticSpacing ''stack-md'')]"

definition cardColorTokens :: obj where
  "cardColorTokens =
    [(''card-background'', Str ''background-secondary''),
     (''card-background-elevated'', Str ''background-primary''),
     (''card-border'', Str ''border-subtle'')]"

definition inputTokens :: obj where
  "inputTokens =
    [(''input-padding-x'', get_prop semanticSpacing ''inset-md''),
     (''input-padding-y'', get_prop semanticSpacing ''inset-sm''),
     (''input-height-sm'', Num 36),
     (''input-height-md'', Num 44),
     (''input-height-lg'', Num 52),
     (''input-radius'', get_prop semanticRadius ''radius-interactive''),
     (''input-font'', get_prop typeStyles ''type-body-md''),
     (''input-placeholder-font'', get_prop typeStyles ''type-body-md''),
     (''input-label-font'', get_prop typeStyles ''type-label-sm''),
     (''input-helper-font'', get_prop typeStyles ''type-caption'')]"

definition inputColorTokens :: obj where
  "inputColorTokens =
    [(''input-background'', Str ''background-primary''),
     (''input-background-disabled'', Str ''background-tertiary''),
     (''input-border'', Str ''border-default''),
     (''input-border-hover'', Str ''border-strong''),
     (''input-border-focus'', Str ''border-accent''),
     (''input-border-error'', Str ''support-error''),
     (''input-text'', Str ''text-primary''),
     (''input-text-placeholder'', Str ''text-tertiary''),
     (''input-text-disabled'', Str ''text-disabled''),
     (''input-label'', Str ''text-secondary''),
     (''input-helper'', Str ''text-tertiary''),
     (''input-error'', Str ''support-error'')]"

section \<open>Tier 2: the semantic object (unnamed/part_024)\<close>

text \<open>
  \<^verbatim>\<open>semantic = { colors: { light, dark, trueBlack }, spacing, typography, motion,
  springMotion, radius, zIndex }\<close>.
\<close>

definition semantic :: obj where
  "semantic =
    [(''colors'', Obj
        [(''light'', Obj lightColors),
         (''dark'', Obj darkColors),
         (''trueBlack'', Obj trueBlackColors)]),
     (''spacing'', Obj semanticSpacing),
     (''typography'', Obj typeStyles),
     (''motion'', Obj motion),
     (''springMotion'', Obj springMotion),
     (''radius'', Obj semanticRadius),
     (''zIndex'', Obj semanticZIndex)]"

section \<open>Tier 3: the component object (unnamed/part_027)\<close>

text \<open>
  \<^verbatim>\<open>{ ...a, k: v }\<close> copies the properties of \<open>a\<close> in order and then assigns
  \<open>k\<close>: an existing property keeps its place and takes the new value, a new one is
  appended.
\<close>

fun set_prop :: "obj \<Rightarrow> string \<Rightarrow> jsval \<Rightarrow> obj" where
  "set_prop [] k v = [(k, v)]"
| "set_prop ((k', v') # ps) k v =
     (if k' = k then (k, v) # ps else (k', v') # set_prop ps k v)"

definition componentTokens :: obj where
  "componentTokens =
    [(''button'', Obj (set_prop buttonTokens ''colors'' (Obj buttonColorTokens))),
     (''card'', Obj (set_prop cardTokens ''colors'' (Obj cardColorTokens))),
     (''input'', Obj (set_prop inputTokens ''colors'' (Obj inputColorTokens)))]"

section \<open>Theme factory (packages/tokens/src/index.ts)\<close>

text \<open>
  What a JavaScript function can throw. Reading a property of \<^verbatim>\<open>undefined\<close> or
  \<^verbatim>\<open>null\<close> is a \<^verbatim>\<open>TypeError\<close>; \<open>Error msg\<close> is \<^verbatim>\<open>throw new Error(msg)\<close>.
\<close>

datatype error = TypeError | Error string

text \<open>
  A property read on a value that is not known to be an object, as in the second step of
  \<^verbatim>\<open>semantic.colors.light\<close>. On a number, string, boolean or array the names used here
  are not defined, so the read gives \<^verbatim>\<open>undefined\<close>.
\<close>

fun read_prop :: "jsval \<Rightarrow> string \<Rightarrow> error + jsval" where
  "read_prop (Obj ps) k = Inr (get_prop ps k)"
| "read_prop Undefined k = Inl TypeError"
| "read_prop Null k = Inl TypeError"
| "read_prop v k = Inr Undefined"

text \<open>
  The type \<^verbatim>\<open>Theme = 'light' | 'dark' | 'trueBlack'\<close> is erased when the code runs, so
  the argument is any JavaScript value. \<^verbatim>\<open>switch\<close> compares with \<^verbatim>\<open>===\<close>; the
  \<^verbatim>\<open>'dark'\<close> label shares the \<^verbatim>\<open>default\<close> branch.
\<close>

definition getThemeColors :: "jsval \<Rightarrow> error + jsval" where
  "getThemeColors t =
     (if t = Str ''light'' then read_prop (get_prop semantic ''colors'') ''light''
      else if t = Str ''trueBlack'' then read_prop (get_prop semantic ''colors'') ''trueBlack''
      else read_prop (get_prop semantic ''colors'') ''dark'')"

definition createTheme :: "jsval \<Rightarrow> error + obj" where
  "createTheme t =
     (case getThemeColors t of
        Inl e \<Rightarrow> Inl e
      | Inr c \<Rightarrow>
          Inr [(''colors'', c),
               (''spacing'', get_prop semantic ''spacing''),
               (''typography'', get_prop semantic ''typography''),
               (''motion'', get_prop semantic ''motion''),
               (''springMotion'', get_prop semantic ''springMotion''),
               (''radius'', get_prop semantic ''radius''),
               (''zIndex'', get_prop semantic ''zIndex''),
               (''components'', Obj componentTokens)])"

section \<open>Theme provider and hooks (unnamed/part_006)\<close>

text \<open>
  The provider owns one \<^verbatim>\<open>useState\<close> cell holding the active theme name; that cell
  is the state of the model. The context value it publishes has the fields
  \<^verbatim>\<open>theme\<close>, \<^verbatim>\<open>themeObject\<close>, \<^verbatim>\<open>toggleTheme\<close> and \<^verbatim>\<open>setTheme\<close>. The first
  two are data and form the record below; the last two are the transitions
  \<open>toggleTheme\<close> and \<open>setTheme\<close> on the state.
\<close>

record ThemeContextValue =
  theme :: jsval
  themeObject :: obj

text \<open>
  \<^verbatim>\<open>{ theme: initialTheme = 'light' }\<close>: a destructuring default applies when the prop
  is absent or \<^verbatim>\<open>undefined\<close>. The result is the first value of the state cell.
\<close>

definition ThemeProvider_init :: "jsval \<Rightarrow> jsval" where
  "ThemeProvider_init p = (if p = Undefined then Str ''light'' else p)"

text \<open>
  One render of the provider in state \<open>s\<close>: \<^verbatim>\<open>useMemo\<close> caches \<^verbatim>\<open>createTheme(theme)\<close>
  per theme name and so has the value of the call itself.
\<close>

definition ThemeProvider_value :: "jsval \<Rightarrow> error + ThemeContextValue" where
  "ThemeProvider_value s =
     (case createTheme s of
        Inl e \<Rightarrow> Inl e
      | Inr ob \<Rightarrow> Inr \<lparr>theme = s, themeObject = ob\<rparr>)"

text \<open>\<^verbatim>\<open>toggleTheme\<close> calls \<^verbatim>\<open>setTheme\<close> with this updater of the previous state.\<close>

definition toggleTheme :: "jsval \<Rightarrow> jsval" where
  "toggleTheme prev =
     (if prev = Str ''light'' then Str ''dark''
      else if prev = Str ''dark'' then Str ''trueBlack''
      else Str ''light'')"

text \<open>\<^verbatim>\<open>setTheme(t)\<close> with a plain value replaces the state.\<close>

definition setTheme :: "jsval \<Rightarrow> jsval \<Rightarrow> jsval" where
  "setTheme t prev = t"

text \<open>
  \<^verbatim>\<open>useContext(ThemeContext)\<close> gives the value of the nearest enclosing provider, or the
  default \<^verbatim>\<open>null\<close> of \<^verbatim>\<open>createContext(null)\<close> when there is none: \<open>None\<close> here.
\<close>

definition useTheme :: "ThemeContextValue option \<Rightarrow> error + ThemeContextValue" where
  "useTheme ctx =
     (case ctx of
        None \<Rightarrow> Inl (Error ''useTheme must be used within a ThemeProvider'')
      | Some v \<Rightarrow> Inr v)"

definition useThemeObject :: "ThemeContextValue option \<Rightarrow> error + obj" where
  "useThemeObject ctx =
     (case useTheme ctx of Inl e \<Rightarrow> Inl e | Inr v \<Rightarrow> Inr (themeObject v))"

definition useColors :: "ThemeContextValue option \<Rightarrow> error + jsval" where
  "useColors ctx =
     (case useTheme ctx of
        Inl e \<Rightarrow> Inl e
      | Inr v \<Rightarrow> Inr (get_prop (themeObject v) ''colors''))"

section \<open>Predicates used to state the properties\<close>

text \<open>A value is a string (\<^verbatim>\<open>typeof v === 'string'\<close>).\<close>

definition is_string :: "jsval \<Rightarrow> bool" where
  "is_string v = (case v of Str s \<Rightarrow> True | _ \<Rightarrow> False)"

text \<open>A value is a string that is a key of all three semantic colour tables.\<close>

definition names_semantic_key :: "jsval \<Rightarrow> bool" where
  "names_semantic_key v =
     (case v of
        Str s \<Rightarrow> has_key lightColors s \<and> has_key darkColors s \<and> has_key trueBlackColors s
      | _ \<Rightarrow> False)"

text \<open>The four dimensions of a typography role.\<close>

definition style_dimensions :: "string list" where
  "style_dimensions = [''fontSize'', ''fontWeight'', ''lineHeight'', ''letterSpacing'']"

text \<open>A role is an object that has each dimension with a value other than \<^verbatim>\<open>undefined\<close>.\<close>

definition style_complete :: "jsval \<Rightarrow> bool" where
  "style_complete v =
     (case v of
        Obj ps \<Rightarrow> list_all (\<lambda>d. has_key ps d \<and> get_prop ps d \<noteq> Undefined) style_dimensions
      | _ \<Rightarrow> False)"

text \<open>
  The keys at which two tables with the same key sequence hold different values, read
  off pairwise.
\<close>

definition differing_keys :: "obj \<Rightarrow> obj \<Rightarrow> string list" where
  "differing_keys a b = map (\<lambda>(p, q). fst p) (filter (\<lambda>(p, q). snd p \<noteq> snd q) (zip a b))"

text \<open>The keys of a table whose value is \<^verbatim>\<open>undefined\<close>.\<close>

definition undefined_keys :: "obj \<Rightarrow> string list" where
  "undefined_keys ob = map fst (filter (\<lambda>p. snd p = Undefined) ob)"

section \<open>Lookup and key lemmas\<close>

lemma get_prop_Nil: "get_prop [] k = Undefined"
  by (simp add: get_prop_def)

lemma get_prop_Cons: "get_prop ((k', v) # ps) k = (if k' = k then v else get_prop ps k)"
  by (simp add: get_prop_def)

lemmas get_prop_simps = get_prop_Nil get_prop_Cons

lemma has_key_Nil: "has_key [] k = False"
  by (simp add: has_key_def Object_keys_def)

lemma has_key_Cons: "has_key ((k', v) # ps) k = (k' = k \<or> has_key ps k)"
  by (auto simp add: has_key_def Object_keys_def)

lemmas has_key_simps = has_key_Nil has_key_Cons

lemmas color_primitives_defs = gold_def gray_def neutral_def ethereal_def support_def

lemmas typography_primitives_defs =
  fontSize_def fontWeight_def lineHeight_def letterSpacing_def

text \<open>
  The model reads a table with \<open>map_of\<close>, which takes the first entry of a key, where a
  JavaScript object literal keeps the last. The colour tables repeat no key, so the two
  agree.
\<close>

lemma keys_light_dark: "Object_keys lightColors = Object_keys darkColors"
  by (simp add: Object_keys_def lightColors_def darkColors_def)

lemma keys_dark_trueBlack: "Object_keys darkColors = Object_keys trueBlackColors"
  by (simp add: Object_keys_def darkColors_def trueBlackColors_def)

lemma darkColors_distinct: "distinct (Object_keys darkColors)"
  by (simp add: darkColors_def Object_keys_def)

lemma lightColors_distinct: "distinct (Object_keys lightColors)"
  using darkColors_distinct by (simp add: keys_light_dark)

lemma trueBlackColors_distinct: "distinct (Object_keys trueBlackColors)"
  using darkColors_distinct by (simp add: keys_dark_trueBlack)

lemma has_key_dark: "has_key darkColors k = has_key lightColors k"
  by (simp add: has_key_def keys_light_dark)

lemma has_key_trueBlack: "has_key trueBlackColors k = has_key lightColors k"
  by (simp add: has_key_def keys_light_dark keys_dark_trueBlack)

lemma names_semantic_key_Str: "names_semantic_key (Str s) = has_key lightColors s"
  by (simp add: names_semantic_key_def has_key_dark has_key_trueBlack)

section \<open>Key-set parity of the colour tables\<close>

text \<open>
  C1. The three semantic colour tables have the same keys: a key of one of
  \<open>lightColors\<close>, \<open>darkColors\<close>, \<open>trueBlackColors\<close> is a key of the other two.
\<close>

theorem key_set_parity:
  "has_key lightColors k = has_key darkColors k \<and>
   has_key darkColors k = has_key trueBlackColors k"
  by (simp add: has_key_def keys_light_dark keys_dark_trueBlack)

section \<open>Component colour tokens name semantic keys\<close>

text \<open>
  C2, as stated, fails: \<open>buttonColorTokens\<close> holds the CSS keyword \<^verbatim>\<open>transparent\<close>,
  which is a literal colour and no key of the semantic tables, and \<open>cardColorTokens\<close>
  holds \<^verbatim>\<open>background-secondary\<close>, which no semantic table has.
\<close>

theorem indirection_counterexample:
  "get_prop buttonColorTokens ''button-primary-border'' = Str ''transparent'' \<and>
   \<not> names_semantic_key (get_prop buttonColorTokens ''button-primary-border'') \<and>
   get_prop cardColorTokens ''card-background'' = Str ''background-secondary'' \<and>
   \<not> names_semantic_key (get_prop cardColorTokens ''card-background'')"
  by (simp add: buttonColorTokens_def cardColorTokens_def get_prop_simps
      names_semantic_key_Str lightColors_def has_key_simps)

text \<open>
  C2, amended. Every entry of the three component colour tables is a string. Every entry
  of \<open>buttonColorTokens\<close> is the keyword \<^verbatim>\<open>transparent\<close> or a key of all three semantic
  colour tables. Every entry of \<open>cardColorTokens\<close> and \<open>inputColorTokens\<close>, the four
  background entries apart, is a key of all three semantic colour tables.
\<close>

theorem indirection_amended:
  "list_all is_string (map snd (buttonColorTokens @ cardColorTokens @ inputColorTokens)) \<and>
   list_all (\<lambda>v. v = Str ''transparent'' \<or> names_semantic_key v) (map snd buttonColorTokens) \<and>
   list_all (\<lambda>(k, v). k \<in> set [''card-background'', ''card-background-elevated'',
                                  ''input-background'', ''input-background-disabled'']
                        \<or> names_semantic_key v)
     (cardColorTokens @ inputColorTokens)"
  by (simp add: buttonColorTokens_def cardColorTokens_def inputColorTokens_def is_string_def
      names_semantic_key_Str lightColors_def has_key_simps)

section \<open>Values of the semantic colour tables\<close>

text \<open>
  C3. The claim is that no entry of a semantic colour table is \<^verbatim>\<open>undefined\<close>. The
  four \<^verbatim>\<open>alert-*-title\<close> entries of \<open>lightColors\<close> read the primitives
  \<^verbatim>\<open>ethereal-blue-70\<close>, \<^verbatim>\<open>support-green-70\<close>, \<^verbatim>\<open>support-amber-70\<close> and
  \<^verbatim>\<open>support-red-70\<close>, which the primitive tables do not have (they stop at 60), so
  these four entries are keys of \<open>lightColors\<close> with the value \<^verbatim>\<open>undefined\<close>.
\<close>

theorem lightColors_alert_titles_undefined:
  "has_key lightColors ''alert-info-title'' \<and>
   get_prop lightColors ''alert-info-title'' = Undefined \<and>
   get_prop lightColors ''alert-success-title'' = Undefined \<and>
   get_prop lightColors ''alert-warning-title'' = Undefined \<and>
   get_prop lightColors ''alert-error-title'' = Undefined"
  by (simp add: lightColors_def get_prop_simps has_key_simps color_primitives_defs)

text \<open>These four are the only such entries; the two dark tables have none.\<close>

lemma lightColors_undefined_keys:
  "undefined_keys lightColors =
     [''alert-info-title'', ''alert-success-title'', ''alert-warning-title'',
      ''alert-error-title'']"
  by (simp add: undefined_keys_def lightColors_def get_prop_simps color_primitives_defs)

lemma darkColors_undefined_keys: "undefined_keys darkColors = []"
  by (simp add: undefined_keys_def darkColors_def get_prop_simps color_primitives_defs)

lemma trueBlackColors_undefined_keys: "undefined_keys trueBlackColors = []"
  by (simp add: undefined_keys_def trueBlackColors_def get_prop_simps color_primitives_defs)

section \<open>The toggle cycle\<close>

text \<open>
  C4. \<open>toggleTheme\<close> takes \<^verbatim>\<open>light\<close> to \<^verbatim>\<open>dark\<close>, \<^verbatim>\<open>dark\<close> to \<^verbatim>\<open>trueBlack\<close> and
  \<^verbatim>\<open>trueBlack\<close> to \<^verbatim>\<open>light\<close>; three toggles from \<^verbatim>\<open>light\<close> end at \<^verbatim>\<open>light\<close>.
\<close>

theorem toggle_cycle:
  "toggleTheme (Str ''light'') = Str ''dark'' \<and>
   toggleTheme (Str ''dark'') = Str ''trueBlack'' \<and>
   toggleTheme (Str ''trueBlack'') = Str ''light'' \<and>
   toggleTheme (toggleTheme (toggleTheme (Str ''light''))) = Str ''light''"
  by (simp add: toggleTheme_def)

section \<open>The theme object\<close>

lemma semantic_colors:
  "get_prop semantic ''colors'' =
     Obj [(''light'', Obj lightColors), (''dark'', Obj darkColors),
          (''trueBlack'', Obj trueBlackColors)]"
  by (simp add: semantic_def get_prop_simps)

lemma getThemeColors_light: "getThemeColors (Str ''light'') = Inr (Obj lightColors)"
  by (simp add: getThemeColors_def semantic_colors get_prop_simps)

lemma getThemeColors_trueBlack: "getThemeColors (Str ''trueBlack'') = Inr (Obj trueBlackColors)"
  by (simp add: getThemeColors_def semantic_colors get_prop_simps)

lemma getThemeColors_other:
  "t \<noteq> Str ''light'' \<Longrightarrow> t \<noteq> Str ''trueBlack'' \<Longrightarrow> getThemeColors t = Inr (Obj darkColors)"
  by (simp add: getThemeColors_def semantic_colors get_prop_simps)

lemma createTheme_of_colors:
  "getThemeColors t = Inr c \<Longrightarrow>
   createTheme t =
     Inr [(''colors'', c),
          (''spacing'', Obj semanticSpacing),
          (''typography'', Obj typeStyles),
          (''motion'', Obj motion),
          (''springMotion'', Obj springMotion),
          (''radius'', Obj semanticRadius),
          (''zIndex'', Obj semanticZIndex),
          (''components'', Obj componentTokens)]"
  by (simp add: createTheme_def semantic_def get_prop_simps)

text \<open>
  C5. For each of the three theme names, \<open>createTheme\<close> returns an object with the
  eight fields \<^verbatim>\<open>colors\<close>, \<^verbatim>\<open>spacing\<close>, \<^verbatim>\<open>typography\<close>, \<^verbatim>\<open>motion\<close>,
  \<^verbatim>\<open>springMotion\<close>, \<^verbatim>\<open>radius\<close>, \<^verbatim>\<open>zIndex\<close>, \<^verbatim>\<open>components\<close> and no other;
  \<^verbatim>\<open>colors\<close> is the colour table of that theme, the next six are the semantic tables,
  the same for every theme, and \<^verbatim>\<open>components\<close> is \<open>componentTokens\<close>.
\<close>

theorem createTheme_shape:
  assumes "t \<in> {Str ''light'', Str ''dark'', Str ''trueBlack''}"
  shows "\<exists>th. createTheme t = Inr th \<and>
     Object_keys th = [''colors'', ''spacing'', ''typography'', ''motion'', ''springMotion'',
                       ''radius'', ''zIndex'', ''components''] \<and>
     get_prop th ''colors'' =
       Obj (if t = Str ''light'' then lightColors
            else if t = Str ''dark'' then darkColors else trueBlackColors) \<and>
     get_prop th ''spacing'' = Obj semanticSpacing \<and>
     get_prop th ''typography'' = Obj typeStyles \<and>
     get_prop th ''motion'' = Obj motion \<and>
     get_prop th ''springMotion'' = Obj springMotion \<and>
     get_prop th ''radius'' = Obj semanticRadius \<and>
     get_prop th ''zIndex'' = Obj semanticZIndex \<and>
     get_prop th ''components'' = Obj componentTokens"
proof -
  from assms consider "t = Str ''light''" | "t = Str ''dark''" | "t = Str ''trueBlack''"
    by auto
  then show ?thesis
  proof cases
    case 1
    then show ?thesis
      by (simp add: createTheme_of_colors [OF getThemeColors_light] Object_keys_def
          get_prop_simps)
  next
    case 2
    then have "getThemeColors t = Inr (Obj darkColors)"
      by (simp add: getThemeColors_other)
    with 2 show ?thesis
      by (simp add: createTheme_of_colors Object_keys_def get_prop_simps)
  next
    case 3
    then show ?thesis
      by (simp add: createTheme_of_colors [OF getThemeColors_trueBlack] Object_keys_def
          get_prop_simps)
  qed
qed

theorem createTheme_shape_witness:
  "Str ''trueBlack'' \<in> {Str ''light'', Str ''dark'', Str ''trueBlack''} \<and>
   (\<exists>th. createTheme (Str ''trueBlack'') = Inr th \<and>
      Object_keys th = [''colors'', ''spacing'', ''typography'', ''motion'', ''springMotion'',
                        ''radius'', ''zIndex'', ''components''] \<and>
      get_prop th ''colors'' = Obj trueBlackColors \<and>
      get_prop th ''components'' = Obj componentTokens)"
  using createTheme_shape [of "Str ''trueBlack''"] by auto

section \<open>The provider and its hooks\<close>

text \<open>
  C6. A provider given no \<^verbatim>\<open>theme\<close> prop starts in state \<^verbatim>\<open>light\<close>, and the context
  value of its first render has \<^verbatim>\<open>theme = 'light'\<close> and the light theme object.
\<close>

theorem default_initial_theme:
  "ThemeProvider_init Undefined = Str ''light'' \<and>
   map_sum id theme (ThemeProvider_value (ThemeProvider_init Undefined)) = Inr (Str ''light'') \<and>
   map_sum id themeObject (ThemeProvider_value (ThemeProvider_init Undefined)) =
     createTheme (Str ''light'')"
  by (simp add: ThemeProvider_init_def ThemeProvider_value_def
      createTheme_of_colors [OF getThemeColors_light])

text \<open>
  C7. With no enclosing provider \<open>useTheme\<close> throws, and so do \<open>useThemeObject\<close> and
  \<open>useColors\<close>; inside a provider \<open>useTheme\<close> returns the context value, and the
  other two return its theme object and the colours of that object.
\<close>

theorem hooks_outside_provider_throw:
  "useTheme None = Inl (Error ''useTheme must be used within a ThemeProvider'') \<and>
   useThemeObject None = Inl (Error ''useTheme must be used within a ThemeProvider'') \<and>
   useColors None = Inl (Error ''useTheme must be used within a ThemeProvider'') \<and>
   useTheme (Some v) = Inr v \<and>
   useThemeObject (Some v) = Inr (themeObject v) \<and>
   useColors (Some v) = Inr (get_prop (themeObject v) ''colors'')"
  by (simp add: useTheme_def useThemeObject_def useColors_def)

section \<open>Typography roles\<close>

text \<open>
  C8. Each of the sixteen roles of \<open>typeStyles\<close> is an object with the four dimensions
  \<^verbatim>\<open>fontSize\<close>, \<^verbatim>\<open>fontWeight\<close>, \<^verbatim>\<open>lineHeight\<close>, \<^verbatim>\<open>letterSpacing\<close>, and each of
  them is a primitive value other than \<^verbatim>\<open>undefined\<close>.
\<close>

theorem typography_complete:
  "length typeStyles = 16 \<and> list_all style_complete (map snd typeStyles)"
  by (simp add: typeStyles_def style_complete_def style_dimensions_def has_key_simps
      get_prop_simps typography_primitives_defs)

section \<open>Theme names outside the enumeration\<close>

text \<open>
  C9. \<open>createTheme\<close> returns a theme object for every argument, and for an argument
  other than \<^verbatim>\<open>'light'\<close> and \<^verbatim>\<open>'trueBlack'\<close>, a theme name or not, \<open>getThemeColors\<close>
  returns \<open>darkColors\<close> and \<open>createTheme\<close> returns what it returns for \<^verbatim>\<open>'dark'\<close>.
\<close>

theorem invalid_theme_is_dark:
  "(\<exists>th. createTheme t = Inr th) \<and>
   (t \<noteq> Str ''light'' \<and> t \<noteq> Str ''trueBlack'' \<longrightarrow>
      getThemeColors t = Inr (Obj darkColors) \<and> createTheme t = createTheme (Str ''dark''))"
proof -
  have "\<exists>c. getThemeColors t = Inr c"
    using getThemeColors_light getThemeColors_trueBlack getThemeColors_other [of t]
    by (cases "t = Str ''light''"; cases "t = Str ''trueBlack''") auto
  then have total: "\<exists>th. createTheme t = Inr th"
    by (auto simp add: createTheme_of_colors)
  have dark: "getThemeColors (Str ''dark'') = Inr (Obj darkColors)"
    by (simp add: getThemeColors_other)
  have "createTheme t = createTheme (Str ''dark'')"
    if "t \<noteq> Str ''light''" and "t \<noteq> Str ''trueBlack''"
    using getThemeColors_other [OF that] dark by (simp add: createTheme_of_colors)
  with total show ?thesis
    by (simp add: getThemeColors_other)
qed

theorem invalid_theme_is_dark_witness:
  "Str ''sepia'' \<noteq> Str ''light'' \<and> Str ''sepia'' \<noteq> Str ''trueBlack'' \<and>
   getThemeColors (Str ''sepia'') = Inr (Obj darkColors) \<and>
   createTheme (Str ''sepia'') = createTheme (Str ''dark'') \<and>
   getThemeColors Undefined = Inr (Obj darkColors) \<and>
   getThemeColors (Num 7) = Inr (Obj darkColors)"
  using invalid_theme_is_dark [of "Str ''sepia''"] invalid_theme_is_dark [of Undefined]
    invalid_theme_is_dark [of "Num 7"]
  by simp

section \<open>Dark and true black\<close>

lemma get_prop_absent: "k \<notin> fst ` set ob \<Longrightarrow> get_prop ob k = Undefined"
  by (induction ob) (auto simp add: get_prop_simps)

lemma differing_keys_subset: "set (differing_keys a b) \<subseteq> fst ` set a"
  unfolding differing_keys_def by (auto dest: set_zip_leftD)

lemma differing_keys_Cons:
  "differing_keys ((k, v) # a) ((k', w) # b) =
     (if v \<noteq> w then k # differing_keys a b else differing_keys a b)"
  by (simp add: differing_keys_def)

text \<open>
  For two tables with the same sequence of keys, none repeated, the keys at which the
  lookups differ are those found by the pairwise comparison.
\<close>

lemma differing_keys_sound:
  "map fst a = map fst b \<Longrightarrow> distinct (map fst a) \<Longrightarrow>
   {k. get_prop a k \<noteq> get_prop b k} = set (differing_keys a b)"
proof (induction a arbitrary: b)
  case Nil
  then show ?case by (simp add: get_prop_simps differing_keys_def)
next
  case (Cons p a)
  obtain k v where p: "p = (k, v)" by (cases p)
  from Cons.prems(1) p obtain w b' where b: "b = (k, w) # b'" and eq: "map fst a = map fst b'"
    by (cases b) auto
  from Cons.prems(2) p have fresh: "k \<notin> fst ` set a" and dist: "distinct (map fst a)"
    by auto
  have ih: "{x. get_prop a x \<noteq> get_prop b' x} = set (differing_keys a b')"
    using Cons.IH [OF eq dist] .
  have nk: "k \<notin> set (differing_keys a b')"
    using differing_keys_subset [of a b'] fresh by blast
  have "{x. get_prop (p # a) x \<noteq> get_prop b x} =
        (if v \<noteq> w then {k} else {}) \<union> {x. get_prop a x \<noteq> get_prop b' x}"
    unfolding p b using ih nk by (auto simp add: get_prop_simps)
  then show ?case
    unfolding p b using ih by (auto simp add: differing_keys_Cons)
qed

lemma dark_trueBlack_differing_keys:
  "differing_keys darkColors trueBlackColors =
     [''background'', ''surface'', ''surface-elevated'', ''border'']"
  by (simp add: differing_keys_def darkColors_def trueBlackColors_def get_prop_simps
      color_primitives_defs)

text \<open>
  C10. \<open>darkColors\<close> and \<open>trueBlackColors\<close> give different values at the four keys
  \<^verbatim>\<open>background\<close>, \<^verbatim>\<open>surface\<close>, \<^verbatim>\<open>surface-elevated\<close>, \<^verbatim>\<open>border\<close> and equal values
  at every other key.
\<close>

theorem dark_trueBlack_differ_in_foundation:
  "{k. get_prop darkColors k \<noteq> get_prop trueBlackColors k} =
     {''background'', ''surface'', ''surface-elevated'', ''border''}"
proof -
  have "{k. get_prop darkColors k \<noteq> get_prop trueBlackColors k} =
        set (differing_keys darkColors trueBlackColors)"
    using keys_dark_trueBlack darkColors_distinct
    by (intro differing_keys_sound) (simp_all add: Object_keys_def)
  then show ?thesis
    by (simp add: dark_trueBlack_differing_keys)
qed

end
